theory Spec2Isabelle
  imports Main "HOL-Library.List_Lexorder" "HOL-Library.Char_ord" "HOL-Library.Multiset"
begin

section \<open>Python values\<close>

text \<open>
  The values that \<^verbatim>\<open>json.loads\<close> produces and that the handlers of \<^verbatim>\<open>app.py\<close> pass
  around: \<^verbatim>\<open>None\<close>, booleans, integers, strings, lists and dicts. A dict is an
  association list in insertion order with distinct keys. A character is a code point
  below 256. Floating-point numbers are left out.
\<close>

datatype json =
    JNull
  | JBool bool
  | JInt int
  | JStr string
  | JList "json list"
  | JDict "(string \<times> json) list"

text \<open>Truth value of a Python object, as \<^verbatim>\<open>elif raw:\<close> tests it.\<close>

fun truthy :: "json \<Rightarrow> bool" where
  "truthy JNull = False"
| "truthy (JBool b) = b"
| "truthy (JInt i) = (i \<noteq> 0)"
| "truthy (JStr s) = (s \<noteq> [])"
| "truthy (JList xs) = (xs \<noteq> [])"
| "truthy (JDict kvs) = (kvs \<noteq> [])"

text \<open>
  Python's \<^verbatim>\<open>==\<close> on these values: \<^verbatim>\<open>True == 1\<close> and \<^verbatim>\<open>False == 0\<close> hold, lists are
  compared position by position, dicts key by key whatever their order.
\<close>

fun py_eq :: "json \<Rightarrow> json \<Rightarrow> bool" where
  "py_eq JNull JNull = True"
| "py_eq (JBool a) (JBool b) = (a = b)"
| "py_eq (JBool a) (JInt i) = (i = (if a then 1 else 0))"
| "py_eq (JInt i) (JBool a) = (i = (if a then 1 else 0))"
| "py_eq (JInt i) (JInt j) = (i = j)"
| "py_eq (JStr s) (JStr t) = (s = t)"
| "py_eq (JList xs) (JList ys) = list_all2 py_eq xs ys"
| "py_eq (JDict a) (JDict b) =
     (length a = length b \<and>
      list_all (\<lambda>(k, v). list_ex (\<lambda>(k', w). k = k' \<and> py_eq v w) b) a)"
| "py_eq _ _ = False"

datatype exn =
    TypeError
  | KeyError

text \<open>Iteration \<^verbatim>\<open>for l in x\<close>: a list yields its elements, a dict its keys, a string
  its characters; anything else is not iterable.\<close>

fun py_iter :: "json \<Rightarrow> exn + json list" where
  "py_iter (JList xs) = Inr xs"
| "py_iter (JDict kvs) = Inr (map (\<lambda>kv. JStr (fst kv)) kvs)"
| "py_iter (JStr s) = Inr (map (\<lambda>c. JStr [c]) s)"
| "py_iter _ = Inl TypeError"

text \<open>Subscription \<^verbatim>\<open>l["name"]\<close> with a string key.\<close>

fun py_getitem :: "json \<Rightarrow> string \<Rightarrow> exn + json" where
  "py_getitem (JDict kvs) k = (case map_of kvs k of None \<Rightarrow> Inl KeyError | Some v \<Rightarrow> Inr v)"
| "py_getitem _ k = Inl TypeError"

section \<open>The json module\<close>

text \<open>
  \<^verbatim>\<open>json.loads\<close> and \<^verbatim>\<open>json.dumps\<close> belong to the Python library, not to the
  application, so the handlers take them as a parameter. On a string \<^verbatim>\<open>loads\<close> either
  returns a value or raises \<^verbatim>\<open>JSONDecodeError\<close> with its \<^verbatim>\<open>msg\<close>, \<^verbatim>\<open>lineno\<close> and
  \<^verbatim>\<open>colno\<close>.
\<close>

datatype decode_error = JSONDecodeError string nat nat

record json_module =
  loads :: "string \<Rightarrow> decode_error + json"
  dumps :: "json \<Rightarrow> string"

section \<open>The table TB_REPO_APPS_AREAS\<close>

text \<open>
  A row holds what \<^verbatim>\<open>row["NAME"]\<close> and \<^verbatim>\<open>row["LINKS"]\<close> give the application. The
  table is a list of rows, so that duplicate names can be represented.
\<close>

record row =
  NAME :: string
  LINKS :: json

type_synonym table = "row list"

text \<open>
  The declaration of the table is not part of the source. What the warehouse does with
  \<^verbatim>\<open>PARSE_JSON\<close> of a text (the value later read back from the cell, or a rejection)
  and whether it enforces unique names are parameters.
\<close>

record warehouse =
  PARSE_JSON :: "string \<Rightarrow> json option"
  unique_names :: bool

subsection \<open>String constants in a statement\<close>

text \<open>
  The handlers build each statement by placing texts between single quotes. The warehouse
  reads such a text as one string constant when every quote in it is doubled or follows a
  backslash; a backslash starts an escape sequence. The function gives the value of the
  constant and \<open>None\<close> when the text closes the constant early (a lone quote, a trailing
  backslash) or uses an escape sequence other than the simple ones; the statement the
  warehouse then sees is not the one written in the handler.
\<close>

definition quote :: char where
  "quote = CHR 0x27"

definition backslash :: char where
  "backslash = CHR 0x5C"

definition escape_char :: "char \<Rightarrow> char option" where
  "escape_char d =
     (if d = quote \<or> d = CHR 0x22 \<or> d = backslash then Some d
      else if d = CHR ''n'' then Some (CHR 0x0A)
      else if d = CHR ''t'' then Some (CHR 0x09)
      else if d = CHR ''r'' then Some (CHR 0x0D)
      else if d = CHR ''b'' then Some (CHR 0x08)
      else if d = CHR ''f'' then Some (CHR 0x0C)
      else None)"

fun string_constant :: "string \<Rightarrow> string option" where
  "string_constant [] = Some []"
| "string_constant (c # cs) =
     (if c = backslash then
        (case cs of
           [] \<Rightarrow> None
         | d # ds \<Rightarrow>
             (case escape_char d of
                None \<Rightarrow> None
              | Some e \<Rightarrow> map_option ((#) e) (string_constant ds)))
      else if c = quote then
        (case cs of
           [] \<Rightarrow> None
         | d # ds \<Rightarrow> if d = quote then map_option ((#) d) (string_constant ds) else None)
      else map_option ((#) c) (string_constant cs))"

subsection \<open>Statements\<close>

text \<open>
  The four statement shapes of the handlers, each with the texts the f-string
  interpolates:
  \<^item> \<^verbatim>\<open>INSERT INTO TB_REPO_APPS_AREAS (NAME, LINKS) SELECT '{n}', PARSE_JSON('{j}')\<close>
  \<^item> \<^verbatim>\<open>UPDATE TB_REPO_APPS_AREAS SET NAME = '{n}', LINKS = PARSE_JSON('{j}') WHERE NAME = '{w}'\<close>
  \<^item> \<^verbatim>\<open>UPDATE TB_REPO_APPS_AREAS SET LINKS = PARSE_JSON('{j}') WHERE NAME = '{w}'\<close>
  \<^item> \<^verbatim>\<open>DELETE FROM TB_REPO_APPS_AREAS WHERE NAME = '{w}'\<close>
\<close>

datatype stmt =
    InsertArea string string
  | UpdateArea string string string
  | UpdateLinks string string
  | DeleteArea string

definition indent :: "nat \<Rightarrow> string" where
  "indent k = replicate k (CHR '' '')"

definition newline :: string where
  "newline = [CHR 0x0A]"

text \<open>The text of the f-string, as \<^verbatim>\<open>session.sql\<close> receives it.\<close>

fun sql_text :: "stmt \<Rightarrow> string" where
  "sql_text (InsertArea n j) =
     newline @ indent 28 @ ''INSERT INTO TB_REPO_APPS_AREAS (NAME, LINKS)'' @
     newline @ indent 28 @ ''SELECT '' @ [quote] @ n @ [quote] @ '', PARSE_JSON('' @ [quote] @ j @ [quote] @ '')'' @
     newline @ indent 24"
| "sql_text (UpdateArea n j w) =
     newline @ indent 28 @ ''UPDATE TB_REPO_APPS_AREAS'' @
     newline @ indent 28 @ ''SET NAME = '' @ [quote] @ n @ [quote] @
       '', LINKS = PARSE_JSON('' @ [quote] @ j @ [quote] @ '')'' @
     newline @ indent 28 @ ''WHERE NAME = '' @ [quote] @ w @ [quote] @
     newline @ indent 24"
| "sql_text (UpdateLinks j w) =
     newline @ indent 28 @ ''UPDATE TB_REPO_APPS_AREAS'' @
     newline @ indent 28 @ ''SET LINKS = PARSE_JSON('' @ [quote] @ j @ [quote] @ '')'' @
     newline @ indent 28 @ ''WHERE NAME = '' @ [quote] @ w @ [quote] @
     newline @ indent 24"
| "sql_text (DeleteArea w) =
     ''DELETE FROM TB_REPO_APPS_AREAS WHERE NAME = '' @ [quote] @ w @ [quote]"

text \<open>
  Where the text of a statement ends: outside every quoted token, inside a string
  constant, or inside a double-quoted identifier. Within a constant a backslash takes the
  next character with it and a doubled quote stays inside; within an identifier only a
  doubled double quote stays inside. The result is \<open>None\<close> when a character that may
  start a comment or a dollar-quoted constant occurs outside the quoted tokens.
\<close>

datatype lexical = Outside | InConstant | InIdentifier

fun ends :: "lexical \<Rightarrow> string \<Rightarrow> lexical option" where
  "ends l [] = Some l"
| "ends Outside (c # cs) =
     (if c = quote then ends InConstant cs
      else if c = CHR 0x22 then ends InIdentifier cs
      else if c = CHR ''-'' \<or> c = CHR ''/'' \<or> c = CHR ''$'' then None
      else ends Outside cs)"
| "ends InConstant (c # cs) =
     (if c = backslash then (case cs of [] \<Rightarrow> Some InConstant | d # ds \<Rightarrow> ends InConstant ds)
      else if c = quote then
        (case cs of
           [] \<Rightarrow> Some Outside
         | d # ds \<Rightarrow> if d = quote then ends InConstant ds else ends Outside cs)
      else ends InConstant cs)"
| "ends InIdentifier (c # cs) =
     (if c = CHR 0x22 then
        (case cs of
           [] \<Rightarrow> Some Outside
         | d # ds \<Rightarrow> if d = CHR 0x22 then ends InIdentifier ds else ends Outside cs)
      else ends InIdentifier cs)"

text \<open>A text that ends inside a quoted token cannot be compiled.\<close>

definition unterminated :: "string \<Rightarrow> bool" where
  "unterminated txt = (ends Outside txt = Some InConstant \<or> ends Outside txt = Some InIdentifier)"

datatype sql_error =
    CompilationError
  | ParseJsonError
  | Conflict

text \<open>
  \<open>Applied\<close>: the statement ran and left this table. \<open>Raised\<close>: \<^verbatim>\<open>collect()\<close> raised.
  \<open>Malformed\<close>: an interpolated text is not one string constant, so what runs is not the
  statement of the handler, and its effect is not given here.
\<close>

datatype sql_result =
    Applied table
  | Raised sql_error
  | Malformed

definition names_distinct :: "table \<Rightarrow> bool" where
  "names_distinct tbl = distinct (map NAME tbl)"

definition checked :: "warehouse \<Rightarrow> table \<Rightarrow> sql_result" where
  "checked wh tbl = (if unique_names wh \<and> \<not> names_distinct tbl then Raised Conflict else Applied tbl)"

text \<open>The effect of a statement whose interpolated texts are string constants.\<close>

fun as_written :: "warehouse \<Rightarrow> stmt \<Rightarrow> table \<Rightarrow> sql_result" where
  "as_written wh (InsertArea n j) tbl =
     (case (string_constant n, string_constant j) of
        (Some n', Some j') \<Rightarrow>
          (case PARSE_JSON wh j' of
             None \<Rightarrow> Raised ParseJsonError
           | Some v \<Rightarrow> checked wh (tbl @ [\<lparr>NAME = n', LINKS = v\<rparr>]))
      | _ \<Rightarrow> Malformed)"
| "as_written wh (UpdateArea n j w) tbl =
     (case (string_constant n, string_constant j, string_constant w) of
        (Some n', Some j', Some w') \<Rightarrow>
          (case PARSE_JSON wh j' of
             None \<Rightarrow> Raised ParseJsonError
           | Some v \<Rightarrow>
               checked wh (map (\<lambda>r. if NAME r = w' then \<lparr>NAME = n', LINKS = v\<rparr> else r) tbl))
      | _ \<Rightarrow> Malformed)"
| "as_written wh (UpdateLinks j w) tbl =
     (case (string_constant j, string_constant w) of
        (Some j', Some w') \<Rightarrow>
          (case PARSE_JSON wh j' of
             None \<Rightarrow> Raised ParseJsonError
           | Some v \<Rightarrow> Applied (map (\<lambda>r. if NAME r = w' then r\<lparr>LINKS := v\<rparr> else r) tbl))
      | _ \<Rightarrow> Malformed)"
| "as_written wh (DeleteArea w) tbl =
     (case string_constant w of
        Some w' \<Rightarrow> Applied (filter (\<lambda>r. NAME r \<noteq> w') tbl)
      | None \<Rightarrow> Malformed)"

text \<open>\<^verbatim>\<open>session.sql(...).collect()\<close>.\<close>

definition session_sql :: "warehouse \<Rightarrow> stmt \<Rightarrow> table \<Rightarrow> sql_result" where
  "session_sql wh st tbl =
     (case as_written wh st tbl of
        Malformed \<Rightarrow> if unterminated (sql_text st) then Raised CompilationError else Malformed
      | r \<Rightarrow> r)"

section \<open>Reading the catalog\<close>

record area =
  name :: string
  links :: json

text \<open>The body of the loop of \<^verbatim>\<open>load_areas_from_sf\<close> for one row.\<close>

definition area_of_row :: "json_module \<Rightarrow> row \<Rightarrow> area" where
  "area_of_row lib r =
     (let raw = LINKS r in
      \<lparr>name = NAME r,
       links =
         (case raw of
            JStr s \<Rightarrow> (case loads lib s of Inr v \<Rightarrow> v | Inl e \<Rightarrow> JList [])
          | _ \<Rightarrow> if truthy raw then raw else JList [])\<rparr>)"

text \<open>\<^verbatim>\<open>.order_by("NAME")\<close> sorts the rows by name; the loop keeps their order.\<close>

definition load_areas_from_sf :: "json_module \<Rightarrow> table \<Rightarrow> area list" where
  "load_areas_from_sf lib tbl = map (area_of_row lib) (sort_key NAME tbl)"

section \<open>The handlers of the management tab\<close>

text \<open>What a handler shows: the \<^verbatim>\<open>st.error\<close> and \<^verbatim>\<open>st.success\<close> calls of the source.\<close>

datatype notice =
    JsonInvalid string nat nat
  | NotAList
  | AreaAdded
  | AddAreaError sql_error
  | AreaUpdated
  | UpdateAreaError sql_error
  | AreaDeleted
  | DeleteAreaError sql_error
  | ProjectDeleted
  | DeleteProjectError "exn + sql_error"


text \<open>
  A handler ends with a notice and the table it leaves, or, when its statement was
  malformed, with an effect this theory does not give.
\<close>

datatype outcome =
    Shown notice table
  | NotAsWritten

definition run :: "warehouse \<Rightarrow> notice \<Rightarrow> (sql_error \<Rightarrow> notice) \<Rightarrow> stmt \<Rightarrow> table \<Rightarrow> outcome" where
  "run wh ok err st tbl =
     (case session_sql wh st tbl of
        Applied tbl' \<Rightarrow> Shown ok tbl'
      | Raised e \<Rightarrow> Shown (err e) tbl
      | Malformed \<Rightarrow> NotAsWritten)"

text \<open>\<^verbatim>\<open>.replace("'", "\\'")\<close>: a backslash before every single quote.\<close>

definition escape_quotes :: "string \<Rightarrow> string" where
  "escape_quotes s = concat (map (\<lambda>c. if c = quote then [backslash, quote] else [c]) s)"

subsection \<open>Adicionar Area\<close>

text \<open>
  Lines 145 to 159: the parse, the \<^verbatim>\<open>isinstance(parsed_links, list)\<close> test and the
  escaped text; \<open>Inl\<close> is the \<^verbatim>\<open>st.error\<close> followed by \<^verbatim>\<open>st.stop()\<close>.
\<close>

definition btn_add_area_stmt :: "json_module \<Rightarrow> string \<Rightarrow> string \<Rightarrow> notice + stmt" where
  "btn_add_area_stmt lib new_area new_links_json =
     (case loads lib new_links_json of
        Inl (JSONDecodeError m l c) \<Rightarrow> Inl (JsonInvalid m l c)
      | Inr parsed_links \<Rightarrow>
          (case parsed_links of
             JList xs \<Rightarrow> Inr (InsertArea new_area (escape_quotes (dumps lib parsed_links)))
           | _ \<Rightarrow> Inl NotAList))"

definition btn_add_area :: "json_module \<Rightarrow> warehouse \<Rightarrow> table \<Rightarrow> string \<Rightarrow> string \<Rightarrow> outcome" where
  "btn_add_area lib wh tbl new_area new_links_json =
     (case btn_add_area_stmt lib new_area new_links_json of
        Inl n \<Rightarrow> Shown n tbl
      | Inr st \<Rightarrow> run wh AreaAdded AddAreaError st tbl)"

subsection \<open>Atualizar Area\<close>

definition btn_upd_area_stmt :: "json_module \<Rightarrow> string \<Rightarrow> string \<Rightarrow> string \<Rightarrow> notice + stmt" where
  "btn_upd_area_stmt lib sel new_area_name new_links_json =
     (case loads lib new_links_json of
        Inl (JSONDecodeError m l c) \<Rightarrow> Inl (JsonInvalid m l c)
      | Inr parsed_links \<Rightarrow>
          Inr (UpdateArea new_area_name (escape_quotes (dumps lib parsed_links)) sel))"

definition btn_upd_area ::
  "json_module \<Rightarrow> warehouse \<Rightarrow> table \<Rightarrow> string \<Rightarrow> string \<Rightarrow> string \<Rightarrow> outcome" where
  "btn_upd_area lib wh tbl sel new_area_name new_links_json =
     (case btn_upd_area_stmt lib sel new_area_name new_links_json of
        Inl n \<Rightarrow> Shown n tbl
      | Inr st \<Rightarrow> run wh AreaUpdated UpdateAreaError st tbl)"

subsection \<open>Deletar Area\<close>

definition btn_del_area :: "warehouse \<Rightarrow> table \<Rightarrow> string \<Rightarrow> outcome" where
  "btn_del_area wh tbl sel = run wh AreaDeleted DeleteAreaError (DeleteArea sel) tbl"

subsection \<open>Deletar Projeto\<close>

text \<open>
  \<^verbatim>\<open>[l for l in area_obj["links"] if l["name"] != sel_proj]\<close>: the first element whose
  \<^verbatim>\<open>l["name"]\<close> raises ends the comprehension.
\<close>

fun keep_other_projects :: "json \<Rightarrow> json list \<Rightarrow> exn + json list" where
  "keep_other_projects sel_proj [] = Inr []"
| "keep_other_projects sel_proj (l # ls) =
     (case py_getitem l ''name'' of
        Inl e \<Rightarrow> Inl e
      | Inr n \<Rightarrow>
          (case keep_other_projects sel_proj ls of
             Inl e \<Rightarrow> Inl e
           | Inr ks \<Rightarrow> Inr (if py_eq n sel_proj then ks else l # ks)))"

definition updated_links :: "json \<Rightarrow> json \<Rightarrow> exn + json" where
  "updated_links area_links sel_proj =
     (case py_iter area_links of
        Inl e \<Rightarrow> Inl e
      | Inr ls \<Rightarrow> map_sum id JList (keep_other_projects sel_proj ls))"

definition btn_del_proj ::
  "json_module \<Rightarrow> warehouse \<Rightarrow> table \<Rightarrow> json \<Rightarrow> string \<Rightarrow> json \<Rightarrow> outcome" where
  "btn_del_proj lib wh tbl area_links sel_area sel_proj =
     (case updated_links area_links sel_proj of
        Inl e \<Rightarrow> Shown (DeleteProjectError (Inl e)) tbl
      | Inr ul \<Rightarrow>
          run wh ProjectDeleted (\<lambda>e. DeleteProjectError (Inr e))
            (UpdateLinks (dumps lib ul) sel_area) tbl)"

section \<open>Permissions\<close>

text \<open>\<^verbatim>\<open>str.lower\<close> on code points below 256.\<close>

definition lower_char :: "char \<Rightarrow> char" where
  "lower_char c =
     (let n = (of_char c :: nat) in
      if (65 \<le> n \<and> n \<le> 90) \<or> (192 \<le> n \<and> n \<le> 222 \<and> n \<noteq> 215) then char_of (n + 32) else c)"

definition lower :: "string \<Rightarrow> string" where
  "lower s = map lower_char s"

text \<open>A value of \<^verbatim>\<open>raw_permissions\<close>: the string \<^verbatim>\<open>"all"\<close> or a list of area names.\<close>

datatype permission =
    AllAreas
  | AllowList "string list"

definition raw_permissions :: "(string \<times> permission) list" where
  "raw_permissions =
     [(''spdo'', AllAreas),
      (''test_user'',
       AllowList [''Cadastramento e Governan'' @ [CHR 0xE7] @ ''a BP'', ''Coleta Tradicional''])]"

definition user_permissions :: "(string \<times> permission) list" where
  "user_permissions = map (\<lambda>(k, v). (lower k, v)) raw_permissions"

text \<open>\<^verbatim>\<open>user_permissions.get(username, [])\<close> with the lowered session username. The dict
  comprehension keeps the last value of a repeated key, as \<open>map_of\<close> on the reversed list does.\<close>

definition permitted :: "string \<Rightarrow> permission" where
  "permitted session_username =
     (case map_of (rev user_permissions) (lower session_username) of
        None \<Rightarrow> AllowList []
      | Some v \<Rightarrow> v)"

datatype tab = Aplicacoes | Gerenciamento

definition tab_names :: "permission \<Rightarrow> tab list" where
  "tab_names p = (if p = AllAreas then [Aplicacoes, Gerenciamento] else [Aplicacoes])"

definition areas_to_show :: "permission \<Rightarrow> area list \<Rightarrow> area list" where
  "areas_to_show p areas =
     (case p of
        AllAreas \<Rightarrow> areas
      | AllowList ns \<Rightarrow> filter (\<lambda>a. name a \<in> set ns) areas)"

section \<open>A reference json module\<close>

text \<open>
  A decoder and an encoder for the part of JSON whose values are in \<^typ>\<open>json\<close>, following
  \<^verbatim>\<open>json.loads\<close> and \<^verbatim>\<open>json.dumps\<close> with their default arguments. Numbers with a fraction
  or an exponent, \<^verbatim>\<open>NaN\<close> and \<^verbatim>\<open>Infinity\<close>, and escapes of code points above 255 are not
  covered: the decoder reports an error for them. The concrete examples of this theory
  are evaluated with this module.
\<close>

subsection \<open>Tokens\<close>

datatype tok =
    TOpenList
  | TCloseList
  | TOpenDict
  | TCloseDict
  | TComma
  | TColon
  | TScalar json
  | TBadStr string nat
  | TJunk
  | TEnd

definition is_ws :: "char \<Rightarrow> bool" where
  "is_ws c = (c = CHR '' '' \<or> c = CHR 0x09 \<or> c = CHR 0x0A \<or> c = CHR 0x0D)"

definition is_digit :: "char \<Rightarrow> bool" where
  "is_digit c = (48 \<le> (of_char c :: nat) \<and> (of_char c :: nat) \<le> 57)"

definition digit_val :: "char \<Rightarrow> nat" where
  "digit_val c = of_char c - 48"

definition nat_of_digits :: "string \<Rightarrow> nat" where
  "nat_of_digits ds = foldl (\<lambda>n c. 10 * n + digit_val c) 0 ds"

definition hex_val :: "char \<Rightarrow> nat option" where
  "hex_val c =
     (let n = (of_char c :: nat) in
      if 48 \<le> n \<and> n \<le> 57 then Some (n - 48)
      else if 97 \<le> n \<and> n \<le> 102 then Some (n - 87)
      else if 65 \<le> n \<and> n \<le> 70 then Some (n - 55)
      else None)"

text \<open>The four hexadecimal digits of a \<^verbatim>\<open>\u\<close> escape, as a code point below 256.\<close>

definition hex4 :: "string \<Rightarrow> char option" where
  "hex4 hs =
     (case map hex_val hs of
        [Some a, Some b, Some c, Some d] \<Rightarrow>
          if a = 0 \<and> b = 0 then Some (char_of (16 * c + d)) else None
      | _ \<Rightarrow> None)"

definition unescape :: "char \<Rightarrow> char option" where
  "unescape d =
     (if d = CHR 0x22 \<or> d = CHR 0x5C \<or> d = CHR ''/'' then Some d
      else if d = CHR ''b'' then Some (CHR 0x08)
      else if d = CHR ''f'' then Some (CHR 0x0C)
      else if d = CHR ''n'' then Some (CHR 0x0A)
      else if d = CHR ''r'' then Some (CHR 0x0D)
      else if d = CHR ''t'' then Some (CHR 0x09)
      else None)"

definition scanned :: "char \<Rightarrow> nat \<Rightarrow> (string \<times> nat) + (string \<times> nat) \<Rightarrow> (string \<times> nat) + (string \<times> nat)" where
  "scanned ch k r = map_sum id (\<lambda>(s, n). (ch # s, n + k)) r"

text \<open>
  The text after an opening double quote at position \<open>b\<close>: the decoded content and the
  number of characters read, closing quote included, or a message with its position.
\<close>

fun scan_string :: "nat \<Rightarrow> nat \<Rightarrow> string \<Rightarrow> (string \<times> nat) + (string \<times> nat)" where
  "scan_string b p [] = Inl (''Unterminated string starting at'', b)"
| "scan_string b p (c # cs) =
     (if c = CHR 0x22 then Inr ([], 1)
      else if c = CHR 0x5C then
        (case cs of
           [] \<Rightarrow> Inl (''Unterminated string starting at'', b)
         | d # ds \<Rightarrow>
             if d = CHR ''u'' then
               (case hex4 (take 4 ds) of
                  None \<Rightarrow> Inl (''Invalid '' @ [CHR 0x5C] @ ''uXXXX escape'', p)
                | Some ch \<Rightarrow> scanned ch 6 (scan_string b (p + 6) (drop 4 ds)))
             else
               (case unescape d of
                  None \<Rightarrow> Inl (''Invalid '' @ [CHR 0x5C] @ ''escape'', p)
                | Some e \<Rightarrow> scanned e 2 (scan_string b (p + 2) ds)))
      else if (of_char c :: nat) < 32 then Inl (''Invalid control character at'', p)
      else scanned c 1 (scan_string b (p + 1) cs))"

text \<open>An integer at the head of the text, \<^verbatim>\<open>-?(0|[1-9][0-9]*)\<close>, and its length.\<close>

definition scan_digits :: "string \<Rightarrow> (nat \<times> nat) option" where
  "scan_digits r =
     (case r of
        [] \<Rightarrow> None
      | d # ds \<Rightarrow>
          if d = CHR ''0'' then Some (0, 1)
          else if is_digit d then
            (let run = takeWhile is_digit r in Some (nat_of_digits run, length run))
          else None)"

definition scan_int :: "string \<Rightarrow> (int \<times> nat) option" where
  "scan_int s =
     (case s of
        [] \<Rightarrow> None
      | c # cs \<Rightarrow>
          if c = CHR ''-'' then map_option (\<lambda>(v, n). (- int v, n + 1)) (scan_digits cs)
          else map_option (\<lambda>(v, n). (int v, n)) (scan_digits s))"

definition starts_with :: "string \<Rightarrow> string \<Rightarrow> bool" where
  "starts_with w s = (take (length w) s = w)"

fun lex :: "nat \<Rightarrow> string \<Rightarrow> (nat \<times> tok) list" where
  "lex p [] = [(p, TEnd)]"
| "lex p (c # cs) =
     (if is_ws c then lex (p + 1) cs
      else if c = CHR ''['' then (p, TOpenList) # lex (p + 1) cs
      else if c = CHR '']'' then (p, TCloseList) # lex (p + 1) cs
      else if c = CHR ''{'' then (p, TOpenDict) # lex (p + 1) cs
      else if c = CHR ''}'' then (p, TCloseDict) # lex (p + 1) cs
      else if c = CHR '','' then (p, TComma) # lex (p + 1) cs
      else if c = CHR '':'' then (p, TColon) # lex (p + 1) cs
      else if c = CHR 0x22 then
        (case scan_string p (p + 1) cs of
           Inl (m, q) \<Rightarrow> [(p, TBadStr m q)]
         | Inr (s, n) \<Rightarrow> (p, TScalar (JStr s)) # lex (p + 1 + n) (drop n cs))
      else if starts_with ''null'' (c # cs) then (p, TScalar JNull) # lex (p + 4) (drop 3 cs)
      else if starts_with ''true'' (c # cs) then (p, TScalar (JBool True)) # lex (p + 4) (drop 3 cs)
      else if starts_with ''false'' (c # cs) then (p, TScalar (JBool False)) # lex (p + 5) (drop 4 cs)
      else
        (case scan_int (c # cs) of
           None \<Rightarrow> [(p, TJunk)]
         | Some (i, n) \<Rightarrow> (p, TScalar (JInt i)) # lex (p + n) (drop (n - 1) cs)))"

subsection \<open>Values from tokens\<close>

datatype frame =
    FList "json list"
  | FDict "(string \<times> json) list" "string option"

datatype expect =
    Value
  | ValueOrClose
  | Delim
  | Key
  | KeyOrClose
  | Colon
  | Done json

text \<open>A repeated key keeps its first place and takes the last value.\<close>

fun set_key :: "(string \<times> json) list \<Rightarrow> string \<Rightarrow> json \<Rightarrow> (string \<times> json) list" where
  "set_key [] k v = [(k, v)]"
| "set_key ((k', v') # kvs) k v = (if k' = k then (k', v) # kvs else (k', v') # set_key kvs k v)"

text \<open>A finished value goes to the enclosing list or dict, or is the result.\<close>

fun push :: "json \<Rightarrow> frame list \<Rightarrow> frame list \<times> expect" where
  "push v [] = ([], Done v)"
| "push v (FList acc # st) = (FList (v # acc) # st, Delim)"
| "push v (FDict kvs (Some k) # st) = (FDict (set_key kvs k v) None # st, Delim)"
| "push v (FDict kvs None # st) = (FDict kvs None # st, Delim)"

fun parse :: "frame list \<Rightarrow> expect \<Rightarrow> (nat \<times> tok) list \<Rightarrow> (string \<times> nat) + json" where
  "parse st ex [] = Inl (''Expecting value'', 0)"
| "parse st (Done v) ((p, t) # ts) = (if t = TEnd then Inr v else Inl (''Extra data'', p))"
| "parse st Colon ((p, t) # ts) =
     (if t = TColon then parse st Value ts else Inl (''Expecting ':' delimiter'', p))"
| "parse st Delim ((p, t) # ts) =
     (case st of
        FList acc # st' \<Rightarrow>
          if t = TComma then parse st Value ts
          else if t = TCloseList then (case push (JList (rev acc)) st' of (s, e) \<Rightarrow> parse s e ts)
          else Inl (''Expecting ',' delimiter'', p)
      | FDict kvs k # st' \<Rightarrow>
          if t = TComma then parse st Key ts
          else if t = TCloseDict then (case push (JDict kvs) st' of (s, e) \<Rightarrow> parse s e ts)
          else Inl (''Expecting ',' delimiter'', p)
      | [] \<Rightarrow> Inl (''Expecting ',' delimiter'', p))"
| "parse st ex ((p, t) # ts) =
     (if ex = Key \<or> ex = KeyOrClose then
        (case (t, st) of
           (TScalar (JStr k), FDict kvs _ # st') \<Rightarrow> parse (FDict kvs (Some k) # st') Colon ts
         | (TCloseDict, FDict kvs _ # st') \<Rightarrow>
             if ex = KeyOrClose then (case push (JDict kvs) st' of (s, e) \<Rightarrow> parse s e ts)
             else Inl (''Expecting property name enclosed in double quotes'', p)
         | (TBadStr m q, _) \<Rightarrow> Inl (m, q)
         | _ \<Rightarrow> Inl (''Expecting property name enclosed in double quotes'', p))
      else
        (case t of
           TScalar v \<Rightarrow> (case push v st of (s, e) \<Rightarrow> parse s e ts)
         | TOpenList \<Rightarrow> parse (FList [] # st) ValueOrClose ts
         | TOpenDict \<Rightarrow> parse (FDict [] None # st) KeyOrClose ts
         | TCloseList \<Rightarrow>
             (case (ex, st) of
                (ValueOrClose, FList acc # st') \<Rightarrow>
                  (case push (JList (rev acc)) st' of (s, e) \<Rightarrow> parse s e ts)
              | _ \<Rightarrow> Inl (''Expecting value'', p))
         | TBadStr m q \<Rightarrow> Inl (m, q)
         | _ \<Rightarrow> Inl (''Expecting value'', p)))"

text \<open>Line and column of a position, as \<^verbatim>\<open>JSONDecodeError\<close> computes them.\<close>

definition lineno :: "string \<Rightarrow> nat \<Rightarrow> nat" where
  "lineno doc pos = length (filter (\<lambda>c. c = CHR 0x0A) (take pos doc)) + 1"

definition colno :: "string \<Rightarrow> nat \<Rightarrow> nat" where
  "colno doc pos = length (takeWhile (\<lambda>c. c \<noteq> CHR 0x0A) (rev (take pos doc))) + 1"

definition py_loads :: "string \<Rightarrow> decode_error + json" where
  "py_loads doc =
     (case parse [] Value (lex 0 doc) of
        Inl (m, pos) \<Rightarrow> Inl (JSONDecodeError m (lineno doc pos) (colno doc pos))
      | Inr v \<Rightarrow> Inr v)"

subsection \<open>Text from values\<close>

definition hex_digit :: "nat \<Rightarrow> char" where
  "hex_digit n = (if n < 10 then char_of (48 + n) else char_of (87 + n))"

definition encode_char :: "char \<Rightarrow> string" where
  "encode_char c =
     (let n = (of_char c :: nat) in
      if c = CHR 0x22 then [CHR 0x5C, CHR 0x22]
      else if c = CHR 0x5C then [CHR 0x5C, CHR 0x5C]
      else if c = CHR 0x0A then [CHR 0x5C, CHR ''n'']
      else if c = CHR 0x0D then [CHR 0x5C, CHR ''r'']
      else if c = CHR 0x09 then [CHR 0x5C, CHR ''t'']
      else if c = CHR 0x08 then [CHR 0x5C, CHR ''b'']
      else if c = CHR 0x0C then [CHR 0x5C, CHR ''f'']
      else if n < 32 \<or> 126 < n then
        [CHR 0x5C, CHR ''u'', CHR ''0'', CHR ''0'', hex_digit (n div 16), hex_digit (n mod 16)]
      else [c])"

definition encode_string :: "string \<Rightarrow> string" where
  "encode_string s = [CHR 0x22] @ concat (map encode_char s) @ [CHR 0x22]"

fun digits_of :: "nat \<Rightarrow> string" where
  "digits_of n = (if n < 10 then [char_of (48 + n)] else digits_of (n div 10) @ [char_of (48 + n mod 10)])"

definition show_int :: "int \<Rightarrow> string" where
  "show_int i = (if i < 0 then CHR ''-'' # digits_of (nat (- i)) else digits_of (nat i))"

fun join :: "string \<Rightarrow> string list \<Rightarrow> string" where
  "join sep [] = []"
| "join sep [x] = x"
| "join sep (x # y # ys) = x @ sep @ join sep (y # ys)"

fun py_dumps :: "json \<Rightarrow> string" where
  "py_dumps JNull = ''null''"
| "py_dumps (JBool b) = (if b then ''true'' else ''false'')"
| "py_dumps (JInt i) = show_int i"
| "py_dumps (JStr s) = encode_string s"
| "py_dumps (JList xs) = ''['' @ join '', '' (map py_dumps xs) @ '']''"
| "py_dumps (JDict kvs) =
     ''{'' @ join '', '' (map (\<lambda>(k, v). encode_string k @ '': '' @ py_dumps v) kvs) @ ''}''"

definition py_json :: json_module where
  "py_json = \<lparr>loads = py_loads, dumps = py_dumps\<rparr>"

section \<open>A reference warehouse\<close>

text \<open>
  A warehouse whose \<^verbatim>\<open>LINKS\<close> column holds the parsed document and gives it back to the
  application as JSON text; it does not enforce unique names.
\<close>

definition variant_warehouse :: warehouse where
  "variant_warehouse =
     \<lparr>PARSE_JSON = (\<lambda>t. case py_loads t of Inl e \<Rightarrow> None | Inr v \<Rightarrow> Some (JStr (py_dumps v))),
      unique_names = False\<rparr>"

text \<open>A links document with one project and one sublink.\<close>

definition budgeting :: json where
  "budgeting =
     JList [JDict [(''name'', JStr ''Budgeting''),
       (''sublinks'', JList [JDict [(''url'', JStr ''https://x/app''),
                                    (''tutorial_url'', JStr ''https://x/doc'')]])]]"

section \<open>Facts about the model\<close>

lemma string_constant_plain:
  "quote \<notin> set s \<Longrightarrow> backslash \<notin> set s \<Longrightarrow> string_constant s = Some s"
  by (induction s) auto

lemma name_area_of_row: "name (area_of_row lib r) = NAME r"
  by (simp add: area_of_row_def Let_def)

lemma links_area_of_row_text:
  "LINKS r = JStr t \<Longrightarrow> loads lib t = Inr v \<Longrightarrow> links (area_of_row lib r) = v"
  by (simp add: area_of_row_def Let_def)

lemma set_load_areas: "set (load_areas_from_sf lib tbl) = area_of_row lib ` set tbl"
  by (simp add: load_areas_from_sf_def)

lemma btn_upd_area_stmt_any_value:
  "loads lib txt = Inr v \<Longrightarrow>
   btn_upd_area_stmt lib sel n txt = Inr (UpdateArea n (escape_quotes (dumps lib v)) sel)"
  by (simp add: btn_upd_area_stmt_def)

lemma btn_del_area_as_written:
  "string_constant sel = Some w \<Longrightarrow>
   btn_del_area wh tbl sel = Shown AreaDeleted (filter (\<lambda>r. NAME r \<noteq> w) tbl)"
  by (simp add: btn_del_area_def run_def session_sql_def)

lemma btn_del_area_no_match:
  "string_constant sel = Some w \<Longrightarrow> w \<notin> set (map NAME tbl) \<Longrightarrow>
   btn_del_area wh tbl sel = Shown AreaDeleted tbl"
proof -
  assume a: "string_constant sel = Some w" and b: "w \<notin> set (map NAME tbl)"
  from b have "filter (\<lambda>r. NAME r \<noteq> w) tbl = tbl"
    by (induction tbl) auto
  with btn_del_area_as_written [OF a] show ?thesis by simp
qed

lemma btn_upd_area_no_match:
  assumes "loads lib txt = Inr v"
    and "string_constant new = Some n'"
    and "string_constant (escape_quotes (dumps lib v)) = Some j'"
    and "PARSE_JSON wh j' = Some c"
    and "string_constant sel = Some w"
    and "w \<notin> set (map NAME tbl)"
    and "unique_names wh \<longrightarrow> names_distinct tbl"
  shows "btn_upd_area lib wh tbl sel new txt = Shown AreaUpdated tbl"
proof -
  from assms(6) have "map (\<lambda>r. if NAME r = w then \<lparr>NAME = n', LINKS = c\<rparr> else r) tbl = tbl"
    by (induction tbl) auto
  with assms show ?thesis
    by (simp add: btn_upd_area_def btn_upd_area_stmt_def run_def session_sql_def checked_def)
qed

lemma btn_add_area_then_list:
  assumes "loads lib txt = Inr (JList xs)"
    and "string_constant new_area = Some new_area"
    and "string_constant (escape_quotes (dumps lib (JList xs))) = Some j'"
    and "PARSE_JSON wh j' = Some (JStr t)"
    and "loads lib t = Inr (JList xs)"
    and "unique_names wh \<longrightarrow> new_area \<notin> set (map NAME tbl) \<and> names_distinct tbl"
  shows "\<exists>tbl'. btn_add_area lib wh tbl new_area txt = Shown AreaAdded tbl' \<and>
           \<lparr>name = new_area, links = JList xs\<rparr> \<in> set (load_areas_from_sf lib tbl')"
proof -
  let ?r = "\<lparr>NAME = new_area, LINKS = JStr t\<rparr>"
  have run: "btn_add_area lib wh tbl new_area txt = Shown AreaAdded (tbl @ [?r])"
    using assms
    by (auto simp: btn_add_area_def btn_add_area_stmt_def run_def session_sql_def checked_def
        names_distinct_def)
  have "area_of_row lib ?r = \<lparr>name = new_area, links = JList xs\<rparr>"
    using assms(5) by (simp add: area_of_row_def Let_def)
  then have "\<lparr>name = new_area, links = JList xs\<rparr> \<in> set (load_areas_from_sf lib (tbl @ [?r]))"
    by (simp add: set_load_areas image_iff)
  with run show ?thesis by blast
qed

lemma btn_upd_area_then_list:
  assumes "loads lib txt = Inr v"
    and "string_constant a = Some a"
    and "string_constant (escape_quotes (dumps lib v)) = Some j'"
    and "PARSE_JSON wh j' = Some (JStr t)"
    and "loads lib t = Inr v"
    and "unique_names wh \<longrightarrow> names_distinct tbl"
  shows "\<exists>tbl'. btn_upd_area lib wh tbl a a txt = Shown AreaUpdated tbl' \<and>
           (\<forall>x \<in> set (load_areas_from_sf lib tbl'). name x = a \<longrightarrow> links x = v) \<and>
           filter (\<lambda>r. NAME r \<noteq> a) tbl' = filter (\<lambda>r. NAME r \<noteq> a) tbl \<and>
           map NAME tbl' = map NAME tbl"
proof -
  let ?f = "\<lambda>r. if NAME r = a then \<lparr>NAME = a, LINKS = JStr t\<rparr> else r"
  have names: "map NAME (map ?f tbl) = map NAME tbl"
    by (induction tbl) auto
  have frame: "filter (\<lambda>r. NAME r \<noteq> a) (map ?f tbl) = filter (\<lambda>r. NAME r \<noteq> a) tbl"
    by (induction tbl) auto
  have nd: "names_distinct (map ?f tbl) = names_distinct tbl"
    by (simp only: names_distinct_def names)
  have run: "btn_upd_area lib wh tbl a a txt = Shown AreaUpdated (map ?f tbl)"
    using assms nd
    by (auto simp: btn_upd_area_def btn_upd_area_stmt_def run_def session_sql_def checked_def)
  have "links (area_of_row lib r') = v" if "r' \<in> set (map ?f tbl)" and "NAME r' = a" for r'
  proof -
    from that have "r' = \<lparr>NAME = a, LINKS = JStr t\<rparr>" by auto
    with assms(5) show ?thesis by (simp add: area_of_row_def Let_def)
  qed
  then have "\<forall>x \<in> set (load_areas_from_sf lib (map ?f tbl)). name x = a \<longrightarrow> links x = v"
    unfolding set_load_areas by (auto simp: name_area_of_row)
  with run frame names show ?thesis by blast
qed

lemma keep_other_projects_filter:
  "keep_other_projects sel_proj ls = Inr ks \<Longrightarrow>
   ks = filter (\<lambda>l. case py_getitem l ''name'' of Inr n \<Rightarrow> \<not> py_eq n sel_proj | Inl e \<Rightarrow> True) ls"
  by (induction ls arbitrary: ks) (auto split: sum.splits if_splits)

subsection \<open>Examples\<close>

text \<open>
  The add handler on the name \<^verbatim>\<open>Finance\<close> with the empty list, then the update handler
  with one project: the catalog reads back what was written.
\<close>

lemma finance_example:
  \<open>btn_add_area py_json variant_warehouse [] ''Finance'' ''[]''
     = Shown AreaAdded [\<lparr>NAME = ''Finance'', LINKS = JStr ''[]''\<rparr>] \<and>
    load_areas_from_sf py_json [\<lparr>NAME = ''Finance'', LINKS = JStr ''[]''\<rparr>]
     = [\<lparr>name = ''Finance'', links = JList []\<rparr>] \<and>
    btn_upd_area py_json variant_warehouse [\<lparr>NAME = ''Finance'', LINKS = JStr ''[]''\<rparr>]
        ''Finance'' ''Finance''
        ''[{"name": "Budgeting", "sublinks": [{"url": "https://x/app", "tutorial_url": "https://x/doc"}]}]''
     = Shown AreaUpdated [\<lparr>NAME = ''Finance'', LINKS = JStr (py_dumps budgeting)\<rparr>] \<and>
    load_areas_from_sf py_json [\<lparr>NAME = ''Finance'', LINKS = JStr (py_dumps budgeting)\<rparr>]
     = [\<lparr>name = ''Finance'', links = budgeting\<rparr>]\<close>
  by code_simp

text \<open>
  A row whose name holds a single quote can be in the table: the add handler stores it
  when the quote is typed doubled.
\<close>

lemma doubled_quote_example:
  "btn_add_area py_json variant_warehouse [] (''D'' @ [quote, quote] @ ''Or'') ''[]''
     = Shown AreaAdded [\<lparr>NAME = ''D'Or'', LINKS = JStr ''[]''\<rparr>]"
  by code_simp

section \<open>The properties of the specification\<close>

text \<open>
  C1. The claim: for links text that is valid JSON but decodes to an object or a scalar,
  the update handler of "Atualizar Area" fails with a validation error and writes
  nothing, as the add handler does. The update handler has no \<^verbatim>\<open>isinstance\<close> test: on
  the text \<^verbatim>\<open>{}\<close> it issues the update and reports success, the cell then holds an
  object and the catalog reads the area back with a dict for its links, while the add
  handler shows the list notice and leaves the table alone.
\<close>

theorem btn_upd_area_accepts_object:
  "btn_upd_area py_json variant_warehouse [\<lparr>NAME = ''A'', LINKS = JStr ''[]''\<rparr>] ''A'' ''A'' ''{}''
     = Shown AreaUpdated [\<lparr>NAME = ''A'', LINKS = JStr ''{}''\<rparr>] \<and>
   btn_add_area py_json variant_warehouse [\<lparr>NAME = ''A'', LINKS = JStr ''[]''\<rparr>] ''B'' ''{}''
     = Shown NotAList [\<lparr>NAME = ''A'', LINKS = JStr ''[]''\<rparr>] \<and>
   load_areas_from_sf py_json [\<lparr>NAME = ''A'', LINKS = JStr ''{}''\<rparr>] = [\<lparr>name = ''A'', links = JDict []\<rparr>]"
  by code_simp





text \<open>
  C4. Whatever the order of the rows in the table, the catalog is returned sorted by
  area name, ascending, and its names are the names of the rows.
\<close>

theorem load_areas_sorted:
  "sorted (map name (load_areas_from_sf lib tbl)) \<and>
   mset (map name (load_areas_from_sf lib tbl)) = mset (map NAME tbl)"
proof -
  have "map name (load_areas_from_sf lib tbl) = map NAME (sort_key NAME tbl)"
    by (simp add: load_areas_from_sf_def area_of_row_def Let_def)
  then show ?thesis by (simp add: sorted_sort_key)
qed

text \<open>
  C5. The claim: for every valid name and links list, adding the area and reading the
  catalog gives an entry with that name and equivalent links. For the name \<^verbatim>\<open>D'Or\<close>
  the handler interpolates the name unescaped, the statement text ends inside a string
  constant, \<^verbatim>\<open>collect()\<close> raises, the error notice is shown and no row is added.
\<close>

theorem btn_add_area_quote_in_name:
  "btn_add_area py_json variant_warehouse [] ''D'Or'' ''[]''
     = Shown (AddAreaError CompilationError) [] \<and>
   load_areas_from_sf py_json [] = []"
  by code_simp

text \<open>
  C6. The claim: replacing the links of an area under its own name and reading the
  catalog gives exactly the new links. For new links that hold a project name with a
  double quote, \<^verbatim>\<open>json.dumps\<close> writes the quote after a backslash, the handler escapes
  single quotes only, the constant the warehouse reads has the bare double quote,
  \<^verbatim>\<open>PARSE_JSON\<close> rejects it and the area keeps its old links.
\<close>

theorem btn_upd_area_double_quote_in_links:
  \<open>btn_upd_area py_json variant_warehouse [\<lparr>NAME = ''A'', LINKS = JStr ''[]''\<rparr>] ''A'' ''A''
      (''[{"name": "a'' @ [CHR 0x5C] @ ''"b", "sublinks": []}]'')
     = Shown (UpdateAreaError ParseJsonError) [\<lparr>NAME = ''A'', LINKS = JStr ''[]''\<rparr>] \<and>
    loads py_json (''[{"name": "a'' @ [CHR 0x5C] @ ''"b", "sublinks": []}]'')
     = Inr (JList [JDict [(''name'', JStr ''a"b''), (''sublinks'', JList [])]]) \<and>
    load_areas_from_sf py_json [\<lparr>NAME = ''A'', LINKS = JStr ''[]''\<rparr>]
     = [\<lparr>name = ''A'', links = JList []\<rparr>]\<close>
  by code_simp

text \<open>
  C7. The claim: for every old name that matches no row, the update raises no error and
  leaves the table unchanged. For the old name \<^verbatim>\<open>D'Or\<close>, which no row has, the
  statement text ends inside a string constant and \<^verbatim>\<open>collect()\<close> raises: the table is
  unchanged but the error notice is shown.
\<close>

theorem btn_upd_area_quote_in_old_name:
  "btn_upd_area py_json variant_warehouse [\<lparr>NAME = ''B'', LINKS = JStr ''[]''\<rparr>] ''D'Or'' ''Dor'' ''[]''
     = Shown (UpdateAreaError CompilationError) [\<lparr>NAME = ''B'', LINKS = JStr ''[]''\<rparr>]"
  by code_simp

text \<open>
  C8. The claim: deleting a name that matches no row raises nothing and keeps every row,
  and deleting a name that matches removes exactly the row of that name. For the name
  \<^verbatim>\<open>D'Or\<close> the statement text ends inside a string constant and \<^verbatim>\<open>collect()\<close> raises,
  whether a row has that name (it is not deleted) or not (an error is raised).
\<close>

theorem btn_del_area_quote_in_name:
  "btn_del_area variant_warehouse
     [\<lparr>NAME = ''D'Or'', LINKS = JStr ''[]''\<rparr>, \<lparr>NAME = ''B'', LINKS = JStr ''[]''\<rparr>] ''D'Or''
     = Shown (DeleteAreaError CompilationError)
         [\<lparr>NAME = ''D'Or'', LINKS = JStr ''[]''\<rparr>, \<lparr>NAME = ''B'', LINKS = JStr ''[]''\<rparr>] \<and>
   btn_del_area variant_warehouse [\<lparr>NAME = ''B'', LINKS = JStr ''[]''\<rparr>] ''D'Or''
     = Shown (DeleteAreaError CompilationError) [\<lparr>NAME = ''B'', LINKS = JStr ''[]''\<rparr>]"
  by code_simp

text \<open>
  C9. The claim: the delete-project handler removes every project of the selected name
  and keeps the others in order. When a project that stays has a single quote in its
  name, the handler interpolates \<^verbatim>\<open>json.dumps(updated_links)\<close> without the escape that
  the area handlers apply, the statement text ends inside a quoted token,
  \<^verbatim>\<open>collect()\<close> raises and the selected project is still in the table.
\<close>

theorem btn_del_proj_quote_in_remaining:
  "btn_del_proj py_json variant_warehouse
     [\<lparr>NAME = ''A'',
       LINKS = JStr (py_dumps (JList [JDict [(''name'', JStr ''d'A'')], JDict [(''name'', JStr ''X'')]]))\<rparr>]
     (JList [JDict [(''name'', JStr ''d'A'')], JDict [(''name'', JStr ''X'')]]) ''A'' (JStr ''X'')
   = Shown (DeleteProjectError (Inr CompilationError))
       [\<lparr>NAME = ''A'',
         LINKS = JStr (py_dumps (JList [JDict [(''name'', JStr ''d'A'')], JDict [(''name'', JStr ''X'')]]))\<rparr>]"
  by code_simp

text \<open>
  C10. The permission lookup depends on the session username only through its lowered
  form, and the keys of the mapping are the lowered keys of \<^verbatim>\<open>raw_permissions\<close>. A
  username whose lowered form is not a key gets the empty allow-list: no area is shown
  and there is no management tab.
\<close>

theorem permission_lookup:
  "(lower u = lower u' \<longrightarrow> permitted u = permitted u') \<and>
   map fst user_permissions = map (\<lambda>kv. lower (fst kv)) raw_permissions \<and>
   (lower u \<notin> set (map fst user_permissions) \<longrightarrow>
      permitted u = AllowList [] \<and> areas_to_show (permitted u) areas = [] \<and>
      Gerenciamento \<notin> set (tab_names (permitted u)))"
proof -
  have a: "lower u = lower u' \<longrightarrow> permitted u = permitted u'"
    by (simp add: permitted_def)
  have b: "map fst user_permissions = map (\<lambda>kv. lower (fst kv)) raw_permissions"
    by (simp add: user_permissions_def case_prod_beta)
  have c: "permitted u = AllowList []" if "lower u \<notin> set (map fst user_permissions)"
  proof -
    from that have "map_of (rev user_permissions) (lower u) = None"
      by (simp add: map_of_eq_None_iff)
    then show ?thesis by (simp add: permitted_def)
  qed
  from a b c show ?thesis by (auto simp: areas_to_show_def tab_names_def)
qed

theorem permission_lookup_witness:
  "lower ''SpDo'' = lower ''spdo'' \<and> permitted ''SpDo'' = permitted ''spdo'' \<and>
   permitted ''spdo'' = AllAreas \<and>
   lower ''Guest'' \<notin> set (map fst user_permissions) \<and>
   permitted ''Guest'' = AllowList [] \<and>
   areas_to_show (permitted ''Guest'') [\<lparr>name = ''A'', links = JList []\<rparr>] = [] \<and>
   Gerenciamento \<notin> set (tab_names (permitted ''Guest''))"
proof -
  have a: "lower ''SpDo'' = lower ''spdo''" by code_simp
  have b: "lower ''Guest'' \<notin> set (map fst user_permissions)" by code_simp
  have c: "permitted ''spdo'' = AllAreas" by code_simp
  from permission_lookup [of "''SpDo''" "''spdo''"] a
  have p: "permitted ''SpDo'' = permitted ''spdo''" by blast
  from permission_lookup [of "''Guest''" "''Guest''" "[\<lparr>name = ''A'', links = JList []\<rparr>]"] b
  have q: "permitted ''Guest'' = AllowList [] \<and>
        areas_to_show (permitted ''Guest'') [\<lparr>name = ''A'', links = JList []\<rparr>] = [] \<and>
        Gerenciamento \<notin> set (tab_names (permitted ''Guest''))" by blast
  from a b c p q show ?thesis by blast
qed

end
